theory Spec2Isabelle
  imports Main
begin

section \<open>JavaScript strings\<close>

text \<open>
  Strings are lists of characters. The functions of this section are the built-in
  string operations that \<^verbatim>\<open>src/git/git.ts\<close> calls, with the meaning ECMAScript
  gives them.
\<close>

text \<open>\<^verbatim>\<open>s.startsWith(p)\<close>\<close>

fun startsWith :: "string \<Rightarrow> string \<Rightarrow> bool" where
  "startsWith s [] = True"
| "startsWith [] (p # ps) = False"
| "startsWith (c # cs) (p # ps) = (c = p \<and> startsWith cs ps)"

text \<open>\<^verbatim>\<open>s.includes(p)\<close>: \<^verbatim>\<open>p\<close> occurs somewhere in \<^verbatim>\<open>s\<close>, case-sensitively.\<close>

fun includes_js :: "string \<Rightarrow> string \<Rightarrow> bool" where
  "includes_js [] pat = (pat = [])"
| "includes_js (c # cs) pat = (startsWith (c # cs) pat \<or> includes_js cs pat)"

text \<open>
  \<^verbatim>\<open>s.replace(pat, rep)\<close> with a string pattern: the leftmost occurrence of \<^verbatim>\<open>pat\<close>,
  wherever it stands in \<^verbatim>\<open>s\<close>, is replaced, and nothing else. (The replacement strings
  of the source are empty, so the \<^verbatim>\<open>$\<close> patterns of a replacement string never arise.)
\<close>

fun replace :: "string \<Rightarrow> string \<Rightarrow> string \<Rightarrow> string" where
  "replace [] pat rep = (if pat = [] then rep else [])"
| "replace (c # cs) pat rep =
     (if startsWith (c # cs) pat then rep @ drop (length pat) (c # cs)
      else c # replace cs pat rep)"

text \<open>
  \<^verbatim>\<open>s.replace(/x/g, rep)\<close> for a regular expression that matches the one character
  \<^verbatim>\<open>x\<close>: every occurrence is replaced.
\<close>

fun replaceEach :: "char \<Rightarrow> string \<Rightarrow> string \<Rightarrow> string" where
  "replaceEach x rep [] = []"
| "replaceEach x rep (c # cs) =
     (if c = x then rep @ replaceEach x rep cs else c # replaceEach x rep cs)"

text \<open>
  \<^verbatim>\<open>s.replace(/\r?\n|\r/g, ' ')\<close>: every line break (CR LF, LF or CR) becomes one
  space.
\<close>

fun replaceLineBreaks :: "string \<Rightarrow> string" where
  "replaceLineBreaks [] = []"
| "replaceLineBreaks [c] = (if c = CHR 0x0D \<or> c = CHR 0x0A then '' '' else [c])"
| "replaceLineBreaks (c # d # cs) =
     (if c = CHR 0x0D \<and> d = CHR 0x0A then CHR '' '' # replaceLineBreaks cs
      else if c = CHR 0x0D \<or> c = CHR 0x0A then CHR '' '' # replaceLineBreaks (d # cs)
      else c # replaceLineBreaks (d # cs))"




section \<open>Path Resolver\<close>

text \<open>\<^verbatim>\<open>const UncommittedRegex = /^[0]+$/;\<close> and its \<^verbatim>\<open>test\<close>: from the start of
  the input one or more characters \<^verbatim>\<open>0\<close>, then the end of the input (no flag is set,
  so the anchors are those of the whole string).\<close>

definition UncommittedRegex_test :: "string \<Rightarrow> bool" where
  "UncommittedRegex_test s =
     (let rest = dropWhile (\<lambda>c. c = CHR ''0'') s
      in length rest < length s \<and> rest = [])"

definition isUncommitted :: "string \<Rightarrow> bool" where
  "isUncommitted sha = UncommittedRegex_test sha"

text \<open>\<^verbatim>\<open>fileName.replace(/\\/g, '/')\<close>; the second parameter is not used.\<close>

definition normalizePath :: "string \<Rightarrow> string" where
  "normalizePath fileName = replaceEach (CHR 0x5C) ''/'' fileName"


section \<open>The world outside the module\<close>

text \<open>
  A value that is thrown or that rejects a promise is an \<^verbatim>\<open>Error\<close> object: a name and
  a message. \<^verbatim>\<open>new Error(m)\<close> has the name \<^verbatim>\<open>Error\<close>; \<^verbatim>\<open>toString\<close> is
  \<^verbatim>\<open>Error.prototype.toString\<close>. An object is truthy, so \<^verbatim>\<open>ex && ex.toString()\<close> is
  \<^verbatim>\<open>ex.toString()\<close>.
\<close>

datatype js_error = JsError (errName: string) (errMessage: string)

definition newError :: "string \<Rightarrow> js_error" where
  "newError m = JsError ''Error'' m"

definition toString :: "js_error \<Rightarrow> string" where
  "toString ex =
     (if errName ex = [] then errMessage ex
      else if errMessage ex = [] then errName ex
      else errName ex @ '': '' @ errMessage ex)"

text \<open>The logging collaborator: \<^verbatim>\<open>Logger.log\<close>, \<^verbatim>\<open>Logger.warn\<close> and
  \<^verbatim>\<open>Logger.error\<close> each write one entry, made of the parts they are given.\<close>

datatype level = Info | Warn | Err

datatype log_entry = Entry (level: level) (parts: "string list")

text \<open>
  The state the module reads and writes: the module variable \<^verbatim>\<open>git\<close> (the path of the
  executable handle; \<^verbatim>\<open>None\<close> until \<^verbatim>\<open>Git.repoPath\<close> has assigned it), the child
  processes spawned so far (executable, arguments, working directory), the log, the
  temporary files allocated and the data appended to files.
\<close>

record world =
  git :: "string option"
  spawned :: "(string \<times> string list \<times> string) list"
  logged :: "log_entry list"
  tmpFiles :: "string list"
  appended :: "(string \<times> string) list"

text \<open>
  The libraries the module calls, as parameters: \<^verbatim>\<open>spawnPromise\<close> of spawn-rx gives
  the outcome of a child process that has run to its end (its standard output, or the
  error it rejects with); \<^verbatim>\<open>gitUndefined\<close> is the \<^verbatim>\<open>TypeError\<close> that reading
  \<^verbatim>\<open>git.path\<close> throws while \<^verbatim>\<open>git\<close> is unassigned; \<^verbatim>\<open>path.basename\<close> (with and
  without an extension to strip), \<^verbatim>\<open>path.dirname\<close> and \<^verbatim>\<open>path.extname\<close> of Node;
  \<^verbatim>\<open>tmp.file\<close>, which calls back with an error or the destination of the file it has
  made for a prefix and a postfix; \<^verbatim>\<open>fs.appendFile\<close>, which calls back with an error
  or with none.
\<close>

record env =
  spawnPromise :: "string \<Rightarrow> string list \<Rightarrow> string \<Rightarrow> js_error + string"
  gitUndefined :: js_error
  path_basename :: "string \<Rightarrow> string"
  path_basename_ext :: "string \<Rightarrow> string \<Rightarrow> string"
  path_dirname :: "string \<Rightarrow> string"
  path_extname :: "string \<Rightarrow> string"
  tmp_file :: "string \<Rightarrow> string \<Rightarrow> js_error + string"
  fs_appendFile :: "string \<Rightarrow> string \<Rightarrow> js_error option"

text \<open>The state of a promise once nothing more can happen to it.\<close>

datatype 'a promise = Pending | Resolved 'a | Rejected js_error

text \<open>
  \<^verbatim>\<open>Git.splitPath(fileName, repoPath?)\<close>. A root that is absent or the empty string is
  falsy and takes the second branch.
\<close>

definition splitPath :: "env \<Rightarrow> string \<Rightarrow> string option \<Rightarrow> string \<times> string" where
  "splitPath env fileName repoPath =
     (case repoPath of
        Some (c # cs) \<Rightarrow> (replace fileName ((c # cs) @ ''/'') [], c # cs)
      | _ \<Rightarrow>
          (replaceEach (CHR 0x5C) ''/'' (path_basename env fileName),
           replaceEach (CHR 0x5C) ''/'' (path_dirname env fileName)))"

section \<open>Process Invoker\<close>

text \<open>
  \<^verbatim>\<open>async function gitCommand(cwd, ...args)\<close>. The body of the \<^verbatim>\<open>try\<close> reads
  \<^verbatim>\<open>git.path\<close>, spawns the process and, when it succeeds, logs; the \<^verbatim>\<open>catch\<close> logs
  at one of two levels and throws the same value again.
\<close>

definition gitCommand ::
  "env \<Rightarrow> string \<Rightarrow> string list \<Rightarrow> world \<Rightarrow> (js_error + string) \<times> world" where
  "gitCommand env cwd args w =
     (let (r, w1) =
            (case git w of
               None \<Rightarrow> (Inl (gitUndefined env), w)
             | Some p \<Rightarrow>
                 (spawnPromise env p args cwd,
                  w\<lparr>spawned := spawned w @ [(p, args, cwd)]\<rparr>));
          cwdPart = ''  cwd='' @ [CHR 0x27] @ cwd @ [CHR 0x27]
      in case r of
           Inr s \<Rightarrow>
             (Inr s, w1\<lparr>logged := logged w1 @ [Entry Info (''git'' # args @ [cwdPart])]\<rparr>)
         | Inl ex \<Rightarrow>
             (let msg = toString ex;
                  detail = (if msg = [] then msg
                            else [CHR 0x0A] @ ''  '' @ replaceLineBreaks msg)
              in if msg \<noteq> [] \<and>
                    (includes_js msg ''Not a git repository'' \<or>
                     includes_js msg ''is outside repository'' \<or>
                     includes_js msg ''no such path'')
                 then (Inl ex,
                       w1\<lparr>logged := logged w1 @ [Entry Warn (''git'' # args @ [cwdPart, detail])]\<rparr>)
                 else (Inl ex,
                       w1\<lparr>logged := logged w1 @ [Entry Err (''git'' # args @ [cwdPart, detail])]\<rparr>)))"

section \<open>Revision Reader\<close>



text \<open>
  \<^verbatim>\<open>Git.getVersionedFileText(fileName, repoPath, sha)\<close>. \<^verbatim>\<open>sha.replace('^', '')\<close>
  has a string pattern; the promise of the uncommitted branch is rejected by its
  executor, and \<^verbatim>\<open>gitCommand\<close> is not called there.
\<close>

definition getVersionedFileText ::
  "env \<Rightarrow> string \<Rightarrow> string \<Rightarrow> string \<Rightarrow> world \<Rightarrow> (js_error + string) \<times> world" where
  "getVersionedFileText env fileName repoPath sha w =
     (let (file, root) = splitPath env (normalizePath fileName) (Some repoPath);
          sha1 = replace sha ''^'' []
      in if isUncommitted sha1
         then (Inl (newError (''sha='' @ sha1 @ '' is uncommitted'')), w)
         else gitCommand env root [''show'', sha1 @ '':./'' @ file] w)"

section \<open>Materializer\<close>

text \<open>
  \<^verbatim>\<open>Git.getVersionedFile(fileName, repoPath, sha)\<close>: a new promise whose executor
  calls \<^verbatim>\<open>getVersionedFileText(...).then(data => ...)\<close>. \<^verbatim>\<open>then\<close> is given one
  callback only, so when the text promise is rejected neither \<^verbatim>\<open>resolve\<close> nor
  \<^verbatim>\<open>reject\<close> of the new promise is ever called. The prefix of the temporary file
  uses \<^verbatim>\<open>sha\<close> as it was passed.
\<close>

definition getVersionedFile ::
  "env \<Rightarrow> string \<Rightarrow> string \<Rightarrow> string \<Rightarrow> world \<Rightarrow> string promise \<times> world" where
  "getVersionedFile env fileName repoPath sha w =
     (case getVersionedFileText env fileName repoPath sha w of
        (Inl ex, w1) \<Rightarrow> (Pending, w1)
      | (Inr data, w1) \<Rightarrow>
          (let ext = path_extname env fileName
           in case tmp_file env (path_basename_ext env fileName ext @ ''-'' @ sha @ ''__'') ext of
                Inl err \<Rightarrow> (Rejected err, w1)
              | Inr destination \<Rightarrow>
                  (let w2 = w1\<lparr>tmpFiles := tmpFiles w1 @ [destination]\<rparr>
                   in case fs_appendFile env destination data of
                        Some err \<Rightarrow> (Rejected err, w2)
                      | None \<Rightarrow>
                          (Resolved destination,
                           w2\<lparr>appended := appended w2 @ [(destination, data)]\<rparr>))))"

section \<open>A sample world\<close>

text \<open>
  A concrete environment and state on which the definitions can be evaluated: \<^verbatim>\<open>git\<close>
  is resolved, every child process ends with the given outcome, temporary files are
  allocated under \<^verbatim>\<open>/tmp\<close> and writes succeed. Its path functions cut at the last
  \<^verbatim>\<open>/\<close> and the last \<^verbatim>\<open>.\<close>, as Node's do on paths like \<^verbatim>\<open>/repo/src/a.ts\<close>.
\<close>

definition afterLast :: "char \<Rightarrow> string \<Rightarrow> string" where
  "afterLast x s = rev (takeWhile (\<lambda>c. c \<noteq> x) (rev s))"

definition beforeLast :: "char \<Rightarrow> string \<Rightarrow> string" where
  "beforeLast x s = rev (drop 1 (dropWhile (\<lambda>c. c \<noteq> x) (rev s)))"

definition sampleEnv :: "js_error + string \<Rightarrow> env" where
  "sampleEnv outcome =
     \<lparr>spawnPromise = (\<lambda>p args cwd. outcome),
      gitUndefined = JsError ''TypeError'' ''Cannot read property path of undefined'',
      path_basename = afterLast (CHR ''/''),
      path_basename_ext = (\<lambda>f ext. beforeLast (CHR ''.'') (afterLast (CHR ''/'') f)),
      path_dirname = beforeLast (CHR ''/''),
      path_extname = (\<lambda>f. CHR ''.'' # afterLast (CHR ''.'') f),
      tmp_file = (\<lambda>prefix postfix. Inr (''/tmp/'' @ prefix @ ''1'' @ postfix)),
      fs_appendFile = (\<lambda>destination data. None)\<rparr>"

definition sampleWorld :: world where
  "sampleWorld = \<lparr>git = Some ''git'', spawned = [], logged = [], tmpFiles = [], appended = []\<rparr>"

section \<open>Facts about the string operations\<close>

lemma replaceEach_map: "replaceEach x [y] s = map (\<lambda>c. if c = x then y else c) s"
  by (induction s) simp_all

lemma startsWith_take: "startsWith s p \<longleftrightarrow> take (length p) s = p"
  by (induction s p rule: startsWith.induct) auto

lemma startsWith_iff: "startsWith s p \<longleftrightarrow> (\<exists>b. s = p @ b)"
  unfolding startsWith_take
proof
  assume "take (length p) s = p"
  then have "s = p @ drop (length p) s" by (metis append_take_drop_id)
  then show "\<exists>b. s = p @ b" ..
next
  assume "\<exists>b. s = p @ b"
  then show "take (length p) s = p" by auto
qed

text \<open>Replacing a pattern that stands at the front removes exactly that prefix.\<close>

lemma replace_startsWith: "startsWith s p \<Longrightarrow> replace s p rep = rep @ drop (length p) s"
proof (cases s)
  case Nil
  assume "startsWith s p"
  with Nil have "p = []" by (cases p) simp_all
  with Nil show ?thesis by simp
next
  case (Cons c cs)
  assume "startsWith s p"
  with Cons show ?thesis by simp
qed

text \<open>A pattern that occurs nowhere leaves the string as it is.\<close>

lemma replace_absent: "\<not> includes_js s p \<Longrightarrow> replace s p rep = s"
  by (induction s) auto

section \<open>Path Resolver: properties\<close>

text \<open>
  C8. For every string \<open>p\<close>, \<open>normalizePath p\<close> is \<open>p\<close> with every backslash replaced
  by a forward slash and every other character unchanged; so the result holds no
  backslash, and \<open>normalizePath\<close> is idempotent.
\<close>

theorem normalizePath_spec:
  "normalizePath p = map (\<lambda>c. if c = CHR 0x5C then CHR ''/'' else c) p \<and>
   CHR 0x5C \<notin> set (normalizePath p) \<and>
   normalizePath (normalizePath p) = normalizePath p"
proof -
  have m: "normalizePath q = map (\<lambda>c. if c = CHR 0x5C then CHR ''/'' else c) q" for q
    unfolding normalizePath_def by (rule replaceEach_map)
  have n: "CHR 0x5C \<notin> set (normalizePath p)"
    unfolding m by auto
  have "normalizePath (normalizePath p) = normalizePath p"
    unfolding m by (induction p) simp_all
  with m n show ?thesis by blast
qed

theorem normalizePath_spec_witness:
  "normalizePath (''C:'' @ [CHR 0x5C] @ ''repo'' @ [CHR 0x5C] @ ''a.ts'') = ''C:/repo/a.ts''"
  using normalizePath_spec [of "''C:'' @ [CHR 0x5C] @ ''repo'' @ [CHR 0x5C] @ ''a.ts''"]
  by simp

text \<open>
  C10. \<open>isUncommitted sha\<close> is true exactly when \<open>sha\<close> is a non-empty string made
  of the character \<open>0\<close> only: true for all-zero strings of any length (\<open>0\<close>, \<open>00\<close>),
  not only for the sentinel of 40 characters, and false for the empty string.
\<close>

theorem isUncommitted_spec:
  "(isUncommitted sha \<longleftrightarrow> sha \<noteq> [] \<and> set sha \<subseteq> {CHR ''0''}) \<and>
   isUncommitted ''0'' \<and> isUncommitted ''00'' \<and> \<not> isUncommitted []"
proof -
  have a: "(length r < length s \<and> r = []) = (s \<noteq> [] \<and> r = [])" for r s :: string
    by auto
  have e: "dropWhile (\<lambda>c. c = CHR ''0'') s = [] \<longleftrightarrow> set s \<subseteq> {CHR ''0''}" for s
    unfolding dropWhile_eq_Nil_conv by blast
  have g: "isUncommitted s \<longleftrightarrow> s \<noteq> [] \<and> set s \<subseteq> {CHR ''0''}" for s
    unfolding isUncommitted_def UncommittedRegex_test_def Let_def a e ..
  have "isUncommitted ''0''" "isUncommitted ''00''" "\<not> isUncommitted []"
    unfolding g by simp_all
  with g show ?thesis
    by blast
qed

theorem isUncommitted_spec_witness:
  "isUncommitted ''0000000000000000000000000000000000000000'' \<and> \<not> isUncommitted ''a1b2c3''"
proof -
  have "isUncommitted ''0000000000000000000000000000000000000000''"
    using isUncommitted_spec [of "''0000000000000000000000000000000000000000''"] by simp
  moreover have "\<not> isUncommitted ''a1b2c3''"
    using isUncommitted_spec [of "''a1b2c3''"] by simp
  ultimately show ?thesis ..
qed

text \<open>
  What the first branch of \<open>splitPath\<close> does when the prefix occurs nowhere in the
  path: the path comes back as it is.
\<close>

lemma splitPath_absent:
  "root \<noteq> [] \<Longrightarrow> \<not> includes_js path (root @ ''/'') \<Longrightarrow> splitPath env path (Some root) = (path, root)"
  by (cases root) (simp_all add: splitPath_def replace_absent)

text \<open>
  C7 (amended). For every non-empty root and every path that begins with the literal
  prefix root + \<open>/\<close>, \<open>splitPath path root\<close> returns the path with exactly that
  leading prefix removed, and the root unchanged.
\<close>

theorem splitPath_prefix:
  "root \<noteq> [] \<Longrightarrow> startsWith path (root @ ''/'') \<Longrightarrow>
   splitPath env path (Some root) = (drop (length (root @ ''/'')) path, root)"
proof -
  assume r: "root \<noteq> []" and s: "startsWith path (root @ ''/'')"
  from r obtain c cs where root: "root = c # cs" by (cases root) auto
  have "replace path (root @ ''/'') [] = drop (length (root @ ''/'')) path"
    using replace_startsWith [OF s, of "[]"] by simp
  then show ?thesis
    unfolding splitPath_def root by simp
qed

theorem splitPath_prefix_witness:
  "''/repo'' \<noteq> [] \<and> startsWith ''/repo/src/a.ts'' (''/repo'' @ ''/'') \<and>
   splitPath (sampleEnv (Inr [])) ''/repo/src/a.ts'' (Some ''/repo'') = (''src/a.ts'', ''/repo'')"
proof -
  have h1: "''/repo'' \<noteq> []" by simp
  have h2: "startsWith ''/repo/src/a.ts'' (''/repo'' @ ''/'')" by simp
  show ?thesis
    using h1 h2 splitPath_prefix [OF h1 h2, of "sampleEnv (Inr [])"] by simp
qed

text \<open>
  C7 as stated, for every root, fails at the empty root: the empty string is falsy, so
  \<open>splitPath\<close> takes the branch of an absent root and answers with the base name and
  the directory name, although the path begins with root + \<open>/\<close>.
\<close>

theorem splitPath_empty_root_counterexample:
  "startsWith ''/x/a.ts'' ([] @ ''/'') \<and>
   splitPath (sampleEnv (Inr [])) ''/x/a.ts'' (Some []) = (''a.ts'', ''/x'') \<and>
   splitPath (sampleEnv (Inr [])) ''/x/a.ts'' (Some []) \<noteq> (drop (length ([] @ ''/'')) ''/x/a.ts'', [])"
  by (simp add: splitPath_def sampleEnv_def afterLast_def beforeLast_def)

text \<open>
  C3. The claim: when the path does not start with root + \<open>/\<close>, \<open>splitPath\<close>
  returns it unchanged, even when root + \<open>/\<close> occurs elsewhere inside the path. The
  code at \<open>/mnt/repo/a.ts\<close> with the root \<open>/repo\<close>: the path does not start with
  \<open>/repo/\<close>, the string \<open>replace\<close> removes the occurrence inside it, and the file
  returned is \<open>/mnta.ts\<close>.
\<close>

theorem splitPath_interior_occurrence:
  "\<not> startsWith ''/mnt/repo/a.ts'' (''/repo'' @ ''/'') \<and>
   splitPath env ''/mnt/repo/a.ts'' (Some ''/repo'') = (''/mnta.ts'', ''/repo'') \<and>
   splitPath env ''/mnt/repo/a.ts'' (Some ''/repo'') \<noteq> (''/mnt/repo/a.ts'', ''/repo'')"
  by (simp add: splitPath_def)

section \<open>Process Invoker: properties\<close>

lemma gitCommand_result:
  "git w = Some p \<Longrightarrow> fst (gitCommand env cwd args w) = spawnPromise env p args cwd"
  by (cases "spawnPromise env p args cwd") (simp_all add: gitCommand_def Let_def)


lemma gitCommand_unresolved:
  "git w = None \<Longrightarrow>
   fst (gitCommand env cwd args w) = Inl (gitUndefined env) \<and>
   spawned (snd (gitCommand env cwd args w)) = spawned w"
  by (simp add: gitCommand_def Let_def)

text \<open>
  C9. Every invocation of \<open>gitCommand\<close> adds exactly one entry to the log: an
  informational entry when the external tool succeeds, a warning or an error entry
  when it fails; never both, never none. (With \<open>git\<close> resolved, the result of
  \<open>gitCommand\<close> is the outcome of the tool.)
\<close>

theorem gitCommand_one_log_entry:
  "(\<exists>e. logged (snd (gitCommand env cwd args w)) = logged w @ [e] \<and>
        (case fst (gitCommand env cwd args w) of
           Inr s \<Rightarrow> level e = Info
         | Inl ex \<Rightarrow> level e = Warn \<or> level e = Err)) \<and>
   (git w = Some p \<longrightarrow> fst (gitCommand env cwd args w) = spawnPromise env p args cwd)"
proof
  show "\<exists>e. logged (snd (gitCommand env cwd args w)) = logged w @ [e] \<and>
        (case fst (gitCommand env cwd args w) of
           Inr s \<Rightarrow> level e = Info
         | Inl ex \<Rightarrow> level e = Warn \<or> level e = Err)"
  proof (cases "git w")
    case None
    then show ?thesis by (simp add: gitCommand_def Let_def)
  next
    case (Some q)
    then show ?thesis
      by (cases "spawnPromise env q args cwd") (simp_all add: gitCommand_def Let_def)
  qed
next
  show "git w = Some p \<longrightarrow> fst (gitCommand env cwd args w) = spawnPromise env p args cwd"
    by (simp add: gitCommand_result)
qed

theorem gitCommand_one_log_entry_witness:
  "logged (snd (gitCommand (sampleEnv (Inr ''ok'')) ''/repo'' [''status''] sampleWorld)) =
     [Entry Info [''git'', ''status'', ''  cwd='' @ [CHR 0x27] @ ''/repo'' @ [CHR 0x27]]] \<and>
   map level (logged (snd (gitCommand (sampleEnv (Inl (newError ''boom''))) ''/repo'' [''status''] sampleWorld))) =
     [Err]"
  using gitCommand_one_log_entry [of "sampleEnv (Inr ''ok'')" "''/repo''" "[''status'']" sampleWorld "''git''"]
        gitCommand_one_log_entry [of "sampleEnv (Inl (newError ''boom''))" "''/repo''" "[''status'']" sampleWorld "''git''"]
  by (simp add: gitCommand_def sampleEnv_def sampleWorld_def newError_def toString_def)

text \<open>
  C4 (amended). For every failing invocation of the external tool, \<open>gitCommand\<close> logs
  at warning level exactly when the failure message contains one of the three
  substrings \<open>Not a git repository\<close> (with a capital N, compared case-sensitively),
  \<open>is outside repository\<close> or \<open>no such path\<close>, logs at error level for every other
  failure message, and in both cases throws the same error value again.
\<close>

theorem gitCommand_failure_level:
  "git w = Some p \<Longrightarrow> spawnPromise env p args cwd = Inl ex \<Longrightarrow>
   fst (gitCommand env cwd args w) = Inl ex \<and>
   map level (logged (snd (gitCommand env cwd args w))) =
     map level (logged w) @
       [if includes_js (toString ex) ''Not a git repository'' \<or>
           includes_js (toString ex) ''is outside repository'' \<or>
           includes_js (toString ex) ''no such path''
        then Warn else Err]"
  by (cases "toString ex = []") (simp_all add: gitCommand_def Let_def)

theorem gitCommand_failure_level_witness:
  "git sampleWorld = Some ''git'' \<and>
   spawnPromise (sampleEnv (Inl (newError ''fatal: /x is outside repository''))) ''git'' [''status''] ''/repo'' =
     Inl (newError ''fatal: /x is outside repository'') \<and>
   fst (gitCommand (sampleEnv (Inl (newError ''fatal: /x is outside repository''))) ''/repo'' [''status''] sampleWorld) =
     Inl (newError ''fatal: /x is outside repository'') \<and>
   map level (logged (snd (gitCommand (sampleEnv (Inl (newError ''fatal: /x is outside repository''))) ''/repo'' [''status''] sampleWorld))) =
     [Warn]"
proof -
  have h1: "git sampleWorld = Some ''git''"
    by (simp add: sampleWorld_def)
  have h2: "spawnPromise (sampleEnv (Inl (newError ''fatal: /x is outside repository''))) ''git'' [''status''] ''/repo'' =
     Inl (newError ''fatal: /x is outside repository'')"
    by (simp add: sampleEnv_def)
  have l: "logged sampleWorld = []"
    by (simp add: sampleWorld_def)
  have i: "includes_js (toString (newError ''fatal: /x is outside repository'')) ''is outside repository''"
    by (simp add: toString_def newError_def)
  show ?thesis
    using h1 h2 gitCommand_failure_level [OF h1 h2] l i by simp
qed

text \<open>
  C4 as stated, with the substring \<open>not a git repository\<close> in lower case, fails: a
  failure message that contains it is logged at error level.
\<close>

theorem gitCommand_lowercase_counterexample:
  "includes_js (toString (newError ''fatal: not a git repository'')) ''not a git repository'' \<and>
   fst (gitCommand (sampleEnv (Inl (newError ''fatal: not a git repository''))) ''/repo'' [''status''] sampleWorld) =
     Inl (newError ''fatal: not a git repository'') \<and>
   map level (logged (snd (gitCommand (sampleEnv (Inl (newError ''fatal: not a git repository''))) ''/repo'' [''status''] sampleWorld))) =
     [Err]"
  by (simp add: gitCommand_def sampleEnv_def sampleWorld_def newError_def toString_def)

section \<open>Revision Reader: properties\<close>






text \<open>
  C5. For every file name and root, \<open>getVersionedFileText\<close> with a revision that is,
  once its \<open>^\<close> is stripped, an all-zero uncommitted revision fails with the error
  \<open>sha=... is uncommitted\<close> and leaves the world as it was: no process is spawned and
  \<open>gitCommand\<close> is not called.
\<close>

theorem getVersionedFileText_uncommitted:
  "isUncommitted (replace sha ''^'' []) \<Longrightarrow>
   getVersionedFileText env fileName repoPath sha w =
     (Inl (newError (''sha='' @ replace sha ''^'' [] @ '' is uncommitted'')), w)"
  by (simp add: getVersionedFileText_def Let_def split: prod.splits)

theorem getVersionedFileText_uncommitted_witness:
  "isUncommitted (replace ''0000000000000000000000000000000000000000'' ''^'' []) \<and>
   getVersionedFileText (sampleEnv (Inr ''text'')) ''/repo/src/a.ts'' ''/repo''
       ''0000000000000000000000000000000000000000'' sampleWorld =
     (Inl (JsError ''Error'' ''sha=0000000000000000000000000000000000000000 is uncommitted''),
      sampleWorld)"
proof -
  have h: "isUncommitted (replace ''0000000000000000000000000000000000000000'' ''^'' [])"
    by (simp add: isUncommitted_def UncommittedRegex_test_def)
  show ?thesis
    using h getVersionedFileText_uncommitted [OF h, of "sampleEnv (Inr ''text'')" "''/repo/src/a.ts''" "''/repo''" sampleWorld]
    by (simp add: newError_def)
qed

text \<open>
  C6. For every file name and root, \<open>getVersionedFileText\<close> with the revision
  \<open>deadbeef^\<close> behaves as with the revision \<open>deadbeef\<close>: the \<open>^\<close> is stripped
  before the command is built, so both run \<open>show deadbeef:./file\<close> and have the same
  result.
\<close>

theorem getVersionedFileText_caret:
  "getVersionedFileText env fileName repoPath ''deadbeef^'' w =
     getVersionedFileText env fileName repoPath ''deadbeef'' w \<and>
   getVersionedFileText env fileName repoPath ''deadbeef^'' w =
     gitCommand env (snd (splitPath env (normalizePath fileName) (Some repoPath)))
       [''show'', ''deadbeef:./'' @ fst (splitPath env (normalizePath fileName) (Some repoPath))] w"
proof -
  have r1: "replace ''deadbeef^'' ''^'' [] = ''deadbeef''" by simp
  have r2: "replace ''deadbeef'' ''^'' [] = ''deadbeef''" by simp
  have u: "\<not> isUncommitted ''deadbeef''"
    by (simp add: isUncommitted_def UncommittedRegex_test_def)
  show ?thesis
    unfolding getVersionedFileText_def Let_def r1 r2
    using u by (simp split: prod.splits)
qed

theorem getVersionedFileText_caret_witness:
  "getVersionedFileText (sampleEnv (Inr ''text'')) ''/repo/src/a.ts'' ''/repo'' ''deadbeef^'' sampleWorld =
     gitCommand (sampleEnv (Inr ''text'')) ''/repo'' [''show'', ''deadbeef:./src/a.ts''] sampleWorld"
proof -
  have sp: "splitPath (sampleEnv (Inr ''text'')) (normalizePath ''/repo/src/a.ts'') (Some ''/repo'') =
      (''src/a.ts'', ''/repo'')"
    by (simp add: splitPath_def normalizePath_def)
  have "getVersionedFileText (sampleEnv (Inr ''text'')) ''/repo/src/a.ts'' ''/repo'' ''deadbeef^'' sampleWorld =
      gitCommand (sampleEnv (Inr ''text''))
        (snd (splitPath (sampleEnv (Inr ''text'')) (normalizePath ''/repo/src/a.ts'') (Some ''/repo'')))
        [''show'', ''deadbeef:./'' @
           fst (splitPath (sampleEnv (Inr ''text'')) (normalizePath ''/repo/src/a.ts'') (Some ''/repo''))]
        sampleWorld"
    using getVersionedFileText_caret [of "sampleEnv (Inr ''text'')" "''/repo/src/a.ts''" "''/repo''" sampleWorld]
    by (rule conjunct2)
  then show ?thesis
    unfolding sp by simp
qed

section \<open>Materializer: properties\<close>

text \<open>
  The three ways \<open>getVersionedFile\<close> can fail. A failure of the temporary file or of
  the write rejects the promise; a failure of the content fetch leaves it pending.
\<close>

lemma getVersionedFile_fetch_failure:
  "fst (getVersionedFileText env fileName repoPath sha w) = Inl ex \<Longrightarrow>
   fst (getVersionedFile env fileName repoPath sha w) = Pending"
  by (cases "getVersionedFileText env fileName repoPath sha w")
     (simp add: getVersionedFile_def)

lemma getVersionedFile_tmp_failure:
  "getVersionedFileText env fileName repoPath sha w = (Inr data, w1) \<Longrightarrow>
   tmp_file env (path_basename_ext env fileName (path_extname env fileName) @ ''-'' @ sha @ ''__'')
     (path_extname env fileName) = Inl err \<Longrightarrow>
   fst (getVersionedFile env fileName repoPath sha w) = Rejected err"
  by (simp add: getVersionedFile_def Let_def)

lemma getVersionedFile_write_failure:
  "getVersionedFileText env fileName repoPath sha w = (Inr data, w1) \<Longrightarrow>
   tmp_file env (path_basename_ext env fileName (path_extname env fileName) @ ''-'' @ sha @ ''__'')
     (path_extname env fileName) = Inr destination \<Longrightarrow>
   fs_appendFile env destination data = Some err \<Longrightarrow>
   fst (getVersionedFile env fileName repoPath sha w) = Rejected err"
  by (simp add: getVersionedFile_def Let_def)

text \<open>
  C2. The claim: whenever \<open>getVersionedFileText\<close> fails, \<open>getVersionedFile\<close> fails
  with that error. The code, at the uncommitted sentinel and at a revision whose
  \<open>show\<close> fails: the text promise is rejected, and the promise of
  \<open>getVersionedFile\<close> never settles.
\<close>

theorem getVersionedFile_loses_fetch_error:
  "fst (getVersionedFileText (sampleEnv (Inr ''text'')) ''/repo/src/a.ts'' ''/repo''
          ''0000000000000000000000000000000000000000'' sampleWorld) =
     Inl (JsError ''Error'' ''sha=0000000000000000000000000000000000000000 is uncommitted'') \<and>
   fst (getVersionedFile (sampleEnv (Inr ''text'')) ''/repo/src/a.ts'' ''/repo''
          ''0000000000000000000000000000000000000000'' sampleWorld) = Pending \<and>
   fst (getVersionedFileText (sampleEnv (Inl (newError ''fatal: no such path''))) ''/repo/src/a.ts'' ''/repo''
          ''abc123'' sampleWorld) = Inl (newError ''fatal: no such path'') \<and>
   fst (getVersionedFile (sampleEnv (Inl (newError ''fatal: no such path''))) ''/repo/src/a.ts'' ''/repo''
          ''abc123'' sampleWorld) = Pending"
proof -
  have z: "isUncommitted (replace ''0000000000000000000000000000000000000000'' ''^'' [])"
    by (simp add: isUncommitted_def UncommittedRegex_test_def)
  have a: "fst (getVersionedFileText (sampleEnv (Inr ''text'')) ''/repo/src/a.ts'' ''/repo''
          ''0000000000000000000000000000000000000000'' sampleWorld) =
     Inl (JsError ''Error'' ''sha=0000000000000000000000000000000000000000 is uncommitted'')"
    using z by (simp add: getVersionedFileText_def Let_def newError_def split: prod.splits)
  have n: "\<not> isUncommitted (replace ''abc123'' ''^'' [])"
    by (simp add: isUncommitted_def UncommittedRegex_test_def)
  have g: "git sampleWorld = Some ''git''"
    by (simp add: sampleWorld_def)
  have b: "fst (getVersionedFileText (sampleEnv (Inl (newError ''fatal: no such path''))) ''/repo/src/a.ts'' ''/repo''
          ''abc123'' sampleWorld) = Inl (newError ''fatal: no such path'')"
    unfolding getVersionedFileText_def Let_def
    using n by (simp add: gitCommand_result [OF g] sampleEnv_def split: prod.splits)
  show ?thesis
    using a b getVersionedFile_fetch_failure [OF a] getVersionedFile_fetch_failure [OF b]
    by simp
qed

end
